theory Spec2Isabelle
  imports Complex_Main
begin

section \<open>Tensors\<close>

text \<open>
  The two components verified here are the loss layer (\<^verbatim>\<open>loss_layer.cpp\<close>) and the
  variable/gradient pair (\<^verbatim>\<open>var_grad.cpp\<close>). Both are written against the tensor
  library, whose sources (\<^verbatim>\<open>tensor.h\<close>, \<^verbatim>\<open>tensor_dim.h\<close>, \<^verbatim>\<open>lazy_tensor.h\<close>,
  \<^verbatim>\<open>util_func.h\<close>) are not among the files at hand. This section holds the part of that
  library the two components call.

  A C \<^verbatim>\<open>float\<close> is modelled as a \<^typ>\<open>real\<close>: rounding, overflow and the order of
  additions are outside the model. The one division of the loss layer whose divisor is zero
  on a path the code takes (the mean of an empty loss vector) is written out, see
  \<open>float_div\<close> below.
\<close>

text \<open>Modelled from the spec: the shape descriptor (batch, channel, height, width) of a
  tensor, \<^verbatim>\<open>TensorDim\<close>, which is declared in \<^verbatim>\<open>tensor_dim.h\<close> (missing).\<close>

record TensorDim =
  batch :: nat
  channel :: nat
  height :: nat
  width :: nat

text \<open>Modelled from the spec: the shape of a default-constructed tensor (the empty
  sentinel), declared in \<^verbatim>\<open>tensor_dim.h\<close> (missing). No dimension is set: the loss layer's
  \<^verbatim>\<open>initialize\<close> rejects such a shape as "must be greater than 0".\<close>

definition TensorDim_default :: TensorDim where
  "TensorDim_default = \<lparr>batch = 0, channel = 0, height = 0, width = 0\<rparr>"

text \<open>Modelled from the spec: the number of elements of one sample (one batch row) and of
  the whole tensor, from \<^verbatim>\<open>tensor_dim.h\<close> (missing).\<close>

definition getFeatureLen :: "TensorDim \<Rightarrow> nat" where
  "getFeatureLen d = channel d * height d * width d"

definition getDataLen :: "TensorDim \<Rightarrow> nat" where
  "getDataLen d = batch d * getFeatureLen d"

text \<open>Modelled from the spec: the initializers of a tensor, \<^verbatim>\<open>Tensor::Initializer\<close> of
  \<^verbatim>\<open>tensor.h\<close> (missing). The sources name \<open>ZEROS\<close> only; \<open>NONE\<close> leaves the memory as
  it was allocated, the others fill it with ones or with random numbers.\<close>

datatype Initializer =
  ZEROS | ONES | LECUN_NORMAL | LECUN_UNIFORM | XAVIER_NORMAL | XAVIER_UNIFORM
  | HE_NORMAL | HE_UNIFORM | NONE

text \<open>Modelled from the spec: the data pointer of a tensor (\<^verbatim>\<open>tensor.h\<close>, missing). The
  spec gives a tensor "a data pointer, and an empty/unallocated state": \<open>Null\<close> is the
  pointer of a tensor with no memory, \<open>Raw\<close> is memory whose contents the model does not
  know (never written, or filled with random numbers), \<open>Filled xs\<close> is memory holding the
  numbers \<open>xs\<close> in row-major order, one batch row after the other.\<close>

datatype storage = Null | Raw | Filled "real list"

record Tensor =
  t_dim :: TensorDim
  initializer :: Initializer
  data :: storage

text \<open>Modelled from the spec: the constructors of \<^verbatim>\<open>Tensor\<close> (\<^verbatim>\<open>tensor.h\<close>, missing).
  \<open>Tensor_default\<close> is \<^verbatim>\<open>Tensor()\<close>, the empty sentinel. \<open>Tensor_ctor d alloc_now init\<close> is
  \<^verbatim>\<open>Tensor(d, alloc_now, init)\<close>: the memory is allocated and initialised at once when
  \<open>alloc_now\<close> holds ("eager"), and left for a later allocation otherwise ("lazy").\<close>

definition Tensor_default :: Tensor where
  "Tensor_default = \<lparr>t_dim = TensorDim_default, initializer = NONE, data = Null\<rparr>"

definition initial_contents :: "Initializer \<Rightarrow> nat \<Rightarrow> storage" where
  "initial_contents init n =
     (case init of
        ZEROS \<Rightarrow> Filled (replicate n 0)
      | ONES \<Rightarrow> Filled (replicate n 1)
      | _ \<Rightarrow> Raw)"

definition Tensor_ctor :: "TensorDim \<Rightarrow> bool \<Rightarrow> Initializer \<Rightarrow> Tensor" where
  "Tensor_ctor d alloc_now init =
     \<lparr>t_dim = d, initializer = init,
      data = (if alloc_now then initial_contents init (getDataLen d) else Null)\<rparr>"

text \<open>Modelled from the spec: the queries of \<^verbatim>\<open>Tensor\<close> the two components use
  (\<^verbatim>\<open>tensor.h\<close>, missing): the shape and its parts, whether memory is bound, and whether
  the tensor is the empty one (it holds no element, as the default-constructed sentinel).\<close>

definition getDim :: "Tensor \<Rightarrow> TensorDim" where
  "getDim t = t_dim t"

definition getBatch :: "Tensor \<Rightarrow> nat" where
  "getBatch t = batch (t_dim t)"

definition getWidth :: "Tensor \<Rightarrow> nat" where
  "getWidth t = width (t_dim t)"

definition isAllocated :: "Tensor \<Rightarrow> bool" where
  "isAllocated t = (data t \<noteq> Null)"

definition empty :: "Tensor \<Rightarrow> bool" where
  "empty t = (getDataLen (t_dim t) = 0)"

text \<open>Modelled from the spec: \<^verbatim>\<open>getData\<close> of \<^verbatim>\<open>tensor.h\<close> (missing), the numbers a tensor
  holds. Reading a tensor without (known) contents is undefined in C; the model reads no
  number there, and every theorem about numbers assumes \<open>tensor_wf\<close>.\<close>

definition getData :: "Tensor \<Rightarrow> real list" where
  "getData t = (case data t of Filled xs \<Rightarrow> xs | _ \<Rightarrow> [])"

text \<open>A well-formed tensor holds exactly as many numbers as its shape says.\<close>

definition tensor_wf :: "Tensor \<Rightarrow> bool" where
  "tensor_wf t = (case data t of Filled xs \<Rightarrow> length xs = getDataLen (t_dim t) | _ \<Rightarrow> False)"

text \<open>Modelled from the spec: the arithmetic of \<^verbatim>\<open>tensor.h\<close> and \<^verbatim>\<open>lazy_tensor.h\<close>
  (missing): "element-wise subtract/multiply/add (in-place and copying variants), batch-wise
  sum reduction, element-wise application". The result has the shape of the receiver. An
  in-place variant (\<^verbatim>\<open>subtract_i\<close>, \<^verbatim>\<open>multiply_i\<close>, \<^verbatim>\<open>add_i\<close>) on a local tensor is the
  copying one whose result replaces the local tensor; a lazy chain
  (\<^verbatim>\<open>t.chain().f().g().run()\<close>) works on a copy of \<open>t\<close> and applies \<open>f\<close>, then \<open>g\<close>. The
  overloads on a number are \<open>multiply_scalar\<close> and \<open>add_scalar\<close>. What the library does on
  operands of different shapes is not described; the theorems below assume equal shapes.\<close>

definition subtract :: "Tensor \<Rightarrow> Tensor \<Rightarrow> Tensor" where
  "subtract t u = t\<lparr>data := Filled (map2 (\<lambda>a b. a - b) (getData t) (getData u))\<rparr>"

definition multiply :: "Tensor \<Rightarrow> Tensor \<Rightarrow> Tensor" where
  "multiply t u = t\<lparr>data := Filled (map2 (\<lambda>a b. a * b) (getData t) (getData u))\<rparr>"

definition add :: "Tensor \<Rightarrow> Tensor \<Rightarrow> Tensor" where
  "add t u = t\<lparr>data := Filled (map2 (\<lambda>a b. a + b) (getData t) (getData u))\<rparr>"

definition multiply_scalar :: "Tensor \<Rightarrow> real \<Rightarrow> Tensor" where
  "multiply_scalar t c = t\<lparr>data := Filled (map (\<lambda>a. a * c) (getData t))\<rparr>"

definition add_scalar :: "Tensor \<Rightarrow> real \<Rightarrow> Tensor" where
  "add_scalar t c = t\<lparr>data := Filled (map (\<lambda>a. a + c) (getData t))\<rparr>"

definition apply_fn :: "Tensor \<Rightarrow> (real \<Rightarrow> real) \<Rightarrow> Tensor" where
  "apply_fn t f = t\<lparr>data := Filled (map f (getData t))\<rparr>"

text \<open>Modelled from the spec: \<^verbatim>\<open>sum_by_batch\<close> of \<^verbatim>\<open>tensor.h\<close> (missing), the "batch-wise sum
  reduction": "sum over all elements of one sample, one scalar per batch row". Row \<open>i\<close> is
  the \<open>i\<close>-th block of \<open>getFeatureLen\<close> numbers.\<close>

definition batch_row :: "Tensor \<Rightarrow> nat \<Rightarrow> real list" where
  "batch_row t i = take (getFeatureLen (t_dim t)) (drop (i * getFeatureLen (t_dim t)) (getData t))"

definition sum_by_batch :: "Tensor \<Rightarrow> Tensor" where
  "sum_by_batch t =
     \<lparr>t_dim = \<lparr>batch = getBatch t, channel = 1, height = 1, width = 1\<rparr>,
      initializer = NONE,
      data = Filled (map (\<lambda>i. sum_list (batch_row t i)) [0..<getBatch t])\<rparr>"

text \<open>Modelled from the spec: the scalar helpers of \<^verbatim>\<open>util_func.h\<close> (missing), "pure
  stateless functions": the logarithm, the rectifier \<open>max(x, 0)\<close> and the sigmoid. \<open>logFloat\<close>
  is the logarithm of the spec's formulas on positive numbers only: at \<open>0\<close> and below a C
  logarithm gives an infinity or not-a-number where HOL's \<open>ln\<close> is some real, so the theorems
  use it on positive arguments only.\<close>

definition logFloat :: "real \<Rightarrow> real" where
  "logFloat x = ln x"

definition relu :: "real \<Rightarrow> real" where
  "relu x = max x 0"

definition sigmoid :: "real \<Rightarrow> real" where
  "sigmoid x = 1 / (1 + exp (- x))"

section \<open>The loss layer\<close>

text \<open>Modelled from the spec: the status codes (\<^verbatim>\<open>nntrainer_error.h\<close>), the cost kinds
  and the activation kinds (\<^verbatim>\<open>layer.h\<close>), whose declarations are missing. The status codes
  and the cost kinds are the ones the source names; the \<^verbatim>\<open>default:\<close> branch of its two
  switches does what the case \<open>COST_UNKNOWN\<close> does. Of the activation kinds the source
  names \<open>ACT_SOFTMAX\<close> only, and compares against it; the others stand for the remaining
  kinds.\<close>

datatype status = ML_ERROR_NONE | ML_ERROR_INVALID_PARAMETER | ML_ERROR_NOT_SUPPORTED

datatype CostType = COST_MSR | COST_ENTROPY_SIGMOID | COST_ENTROPY | COST_UNKNOWN

datatype ActiType = ACT_TANH | ACT_SIGMOID | ACT_RELU | ACT_SOFTMAX | ACT_UNKNOWN

text \<open>The value of the member \<^verbatim>\<open>float loss\<close>. \<open>updateLoss\<close> divides by the batch size of the
  loss vector; for a divisor of zero a C float division gives an infinity or, for \<open>0 / 0\<close>,
  not-a-number, where HOL's \<open>x / 0\<close> is \<open>0\<close>.\<close>

datatype float_value = Val real | PlusInf | MinusInf | NaN

definition float_div :: "real \<Rightarrow> real \<Rightarrow> float_value" where
  "float_div a b =
     (if b \<noteq> 0 then Val (a / b)
      else if a = 0 then NaN
      else if 0 < a then PlusInf else MinusInf)"

record LossLayer =
  input_dim :: TensorDim
  output_dim :: TensorDim
  last_layer :: bool
  input :: Tensor
  cost :: CostType
  activation_type :: ActiType
  loss :: float_value

text \<open>\<^verbatim>\<open>int LossLayer::initialize(bool last)\<close>: the status and the layer afterwards. The
  parameter \<^verbatim>\<open>last\<close> is \<open>last'\<close> here.\<close>

definition initialize :: "bool \<Rightarrow> LossLayer \<Rightarrow> status \<times> LossLayer" where
  "initialize last' s =
     (if batch (input_dim s) \<le> 0 \<or> height (input_dim s) \<le> 0 \<or>
         width (input_dim s) \<le> 0 \<or> channel (input_dim s) \<le> 0
      then (ML_ERROR_INVALID_PARAMETER, s)
      else if \<not> last' then (ML_ERROR_INVALID_PARAMETER, s)
      else (ML_ERROR_NONE, s\<lparr>last_layer := last', output_dim := input_dim s\<rparr>))"

text \<open>\<^verbatim>\<open>void LossLayer::updateLoss(const Tensor &l)\<close>: the loop adds \<open>data[i]\<close> for
  \<open>i = 0, ..., l.getBatch() - 1\<close> to \<open>loss_sum\<close>, starting from \<open>0.0\<close>; the member \<open>loss\<close>
  becomes \<open>loss_sum / (float) l.getBatch()\<close>.\<close>

definition loss_sum :: "Tensor \<Rightarrow> real" where
  "loss_sum l = fold (\<lambda>i acc. acc + getData l ! i) [0..<getBatch l] 0"

definition updateLoss :: "Tensor \<Rightarrow> LossLayer \<Rightarrow> LossLayer" where
  "updateLoss l s = s\<lparr>loss := float_div (loss_sum l) (real (getBatch l))\<rparr>"

text \<open>The switch of \<^verbatim>\<open>Tensor LossLayer::forwarding(Tensor output, Tensor label, int &status)\<close>:
  the per-row loss tensor \<open>l\<close> it leaves for \<open>updateLoss\<close>, or \<open>None\<close> where the switch
  returns early (cross entropy without softmax). \<open>y\<close> is the prediction \<open>output\<close>, \<open>y2\<close> the
  label; \<open>l\<close> starts as the default-constructed tensor and stays so for \<open>COST_UNKNOWN\<close>.\<close>

definition forwarding_loss :: "LossLayer \<Rightarrow> Tensor \<Rightarrow> Tensor \<Rightarrow> Tensor option" where
  "forwarding_loss s y y2 =
     (case cost s of
        COST_MSR \<Rightarrow>
          (let y2' = subtract y2 y
           in Some (multiply_scalar (sum_by_batch (multiply y2' y2')) 0.5))
      | COST_ENTROPY_SIGMOID \<Rightarrow>
          (let mid_term = apply_fn (add_scalar (apply_fn (multiply_scalar (apply_fn y abs) (- 1)) exp) 1) logFloat;
               mid_term' = add mid_term (apply_fn mid_term relu)
           in Some (sum_by_batch
                (multiply_scalar (add (multiply y2 y) mid_term') (- 1 / real (getWidth y2)))))
      | COST_ENTROPY \<Rightarrow>
          (if activation_type s = ACT_SOFTMAX
           then Some (sum_by_batch
                  (multiply_scalar (multiply y2 (apply_fn y logFloat)) (- 1 / real (getWidth y2))))
           else None)
      | COST_UNKNOWN \<Rightarrow> Some Tensor_default)"

text \<open>\<^verbatim>\<open>forwarding(output, label, status)\<close>: the returned tensor, the status and the layer
  afterwards. The prediction is stored in \<open>input\<close> first; the early return leaves with
  \<open>ML_ERROR_NOT_SUPPORTED\<close> before \<open>updateLoss\<close>.\<close>

definition forwarding :: "LossLayer \<Rightarrow> Tensor \<Rightarrow> Tensor \<Rightarrow> Tensor \<times> status \<times> LossLayer" where
  "forwarding s output label =
     (let s1 = s\<lparr>input := output\<rparr>
      in case forwarding_loss s1 output label of
           None \<Rightarrow> (output, ML_ERROR_NOT_SUPPORTED, s1)
         | Some l \<Rightarrow> (output, ML_ERROR_NONE, updateLoss l s1))"

text \<open>\<^verbatim>\<open>Tensor LossLayer::backwarding(Tensor derivative, int iteration)\<close>. The function has no
  status parameter and no \<^verbatim>\<open>throw\<close>: every path returns a tensor, which the model writes
  \<open>Inr\<close> (an \<open>Inl\<close> would be a failure with that status). \<open>y\<close> is the saved prediction
  \<open>input\<close>, \<open>y2\<close> the label \<open>derivative\<close>; \<open>ret_derivative\<close> starts as the default-constructed
  tensor and stays so for \<open>COST_UNKNOWN\<close>.\<close>

definition backwarding :: "LossLayer \<Rightarrow> Tensor \<Rightarrow> int \<Rightarrow> status + Tensor" where
  "backwarding s derivative iteration =
     (let y2 = derivative; y = input s
      in Inr (case cost s of
           COST_MSR \<Rightarrow> subtract y y2
         | COST_ENTROPY_SIGMOID \<Rightarrow>
             (let y' = apply_fn y sigmoid
              in multiply_scalar (subtract y' y2) (1 / real (getWidth y')))
         | COST_ENTROPY \<Rightarrow> multiply_scalar (subtract y y2) (1 / real (getWidth y))
         | COST_UNKNOWN \<Rightarrow> Tensor_default))"

text \<open>\<^verbatim>\<open>Tensor LossLayer::forwarding(Tensor in, int &status)\<close> and
  \<^verbatim>\<open>int LossLayer::setProperty(std::vector<std::string> values)\<close>.\<close>

definition forwarding_plain :: "LossLayer \<Rightarrow> Tensor \<Rightarrow> Tensor \<times> status" where
  "forwarding_plain s inp = (inp, ML_ERROR_NOT_SUPPORTED)"

definition setProperty :: "LossLayer \<Rightarrow> string list \<Rightarrow> status" where
  "setProperty s vals = ML_ERROR_NOT_SUPPORTED"

text \<open>\<^verbatim>\<open>void LossLayer::copy(std::shared_ptr<Layer> l)\<close>: the layer after copying from the
  layer \<open>from'\<close> that \<open>l\<close> points to.\<close>

definition copy :: "LossLayer \<Rightarrow> LossLayer \<Rightarrow> LossLayer" where
  "copy from' s = s\<lparr>last_layer := last_layer from', input := input from', cost := cost from',
     loss := loss from'\<rparr>"

section \<open>The variable/gradient pair\<close>

text \<open>The exception \<^verbatim>\<open>std::invalid_argument\<close>, the one failure of the calls below.\<close>

datatype error = InvalidArgument

text \<open>The members of \<^verbatim>\<open>Var_Grad\<close>. The member \<^verbatim>\<open>dim\<close> is the field \<open>vg_dim\<close> here (HOL has
  a constant \<open>dim\<close>); \<open>var\<close> and \<open>grad\<close> are the tensors the two shared pointers refer to.\<close>

record Var_Grad =
  vg_dim :: TensorDim
  need_gradient :: bool
  alloc_now :: bool
  name :: string
  var :: Tensor
  grad :: Tensor

text \<open>\<^verbatim>\<open>Var_Grad::Var_Grad(dim, init, ng, alloc_now_, name)\<close>; the parameter
  \<^verbatim>\<open>alloc_now_\<close> is \<open>alloc_now'\<close> here.\<close>

definition Var_Grad_ctor ::
  "TensorDim \<Rightarrow> Initializer \<Rightarrow> bool \<Rightarrow> bool \<Rightarrow> string \<Rightarrow> Var_Grad" where
  "Var_Grad_ctor d init ng alloc_now' nm =
     \<lparr>vg_dim = d, need_gradient = ng, alloc_now = alloc_now', name = nm,
      var = Tensor_ctor d alloc_now' init,
      grad = (if ng then Tensor_ctor d alloc_now' ZEROS else Tensor_default)\<rparr>"

text \<open>Modelled from the spec: \<^verbatim>\<open>Tensor::makeSharedDataTensor\<close> of \<^verbatim>\<open>tensor.h\<close> (missing),
  called as \<^verbatim>\<open>t->makeSharedDataTensor(src)\<close>. The spec: it "rebinds [the tensor's] storage to
  alias externalBuffer (no copy)" and "fails with InvalidArgument if externalBuffer's shape
  differs from [the tensor's] shape"; a failed call leaves the tensor unmodified. The result
  is the exception, if any, and the tensor afterwards. The model binds the contents the
  buffer has at the call; it does not follow later writes through the alias.\<close>

definition makeSharedDataTensor :: "Tensor \<Rightarrow> Tensor \<Rightarrow> error option \<times> Tensor" where
  "makeSharedDataTensor t src =
     (if t_dim src \<noteq> t_dim t then (Some InvalidArgument, t)
      else (None, t\<lparr>data := data src\<rparr>))"

text \<open>\<^verbatim>\<open>void Var_Grad::initializeVariable(const Tensor &preallocated)\<close>,
  \<^verbatim>\<open>void Var_Grad::initializeGradient(const Tensor &preallocated)\<close> and
  \<^verbatim>\<open>void Var_Grad::initializeShared()\<close>: the exception that leaves the call, if any, and
  the pair afterwards.\<close>

definition initializeVariable :: "Tensor \<Rightarrow> Var_Grad \<Rightarrow> error option \<times> Var_Grad" where
  "initializeVariable preallocated vg =
     (if \<not> empty preallocated
      then (case makeSharedDataTensor (var vg) preallocated of (e, v) \<Rightarrow> (e, vg\<lparr>var := v\<rparr>))
      else (None, vg))"

definition initializeGradient :: "Tensor \<Rightarrow> Var_Grad \<Rightarrow> error option \<times> Var_Grad" where
  "initializeGradient preallocated vg =
     (if \<not> empty preallocated
      then (case makeSharedDataTensor (grad vg) preallocated of (e, g) \<Rightarrow> (e, vg\<lparr>grad := g\<rparr>))
      else (None, vg))"

definition initializeShared :: "Var_Grad \<Rightarrow> error option \<times> Var_Grad" where
  "initializeShared vg =
     (case makeSharedDataTensor (grad vg) (var vg) of (e, g) \<Rightarrow> (e, vg\<lparr>grad := g\<rparr>))"

text \<open>\<^verbatim>\<open>void Var_Grad::needsGradient(bool ng)\<close>. The new gradient is built by
  \<^verbatim>\<open>Tensor(var->getDim(), alloc_now_)\<close>, with no initializer: it gets the default argument
  of the constructor's declaration. That declaration is not among the sources, so the
  default is the parameter \<open>dflt\<close> here.\<close>

definition needsGradient :: "Initializer \<Rightarrow> bool \<Rightarrow> Var_Grad \<Rightarrow> Var_Grad" where
  "needsGradient dflt ng vg =
     (let vg1 = vg\<lparr>need_gradient := ng\<rparr>
      in if need_gradient vg1 \<and> empty (grad vg1)
         then (let alloc_now' = isAllocated (var vg1)
               in vg1\<lparr>grad := Tensor_ctor (getDim (var vg1)) alloc_now' dflt\<rparr>)
         else vg1)"

text \<open>The invariant the spec gives a pair: the gradient tensor, when present (not empty),
  has the shape of the value tensor; and when \<open>need_gradient\<close> is false the gradient tensor
  is empty.\<close>

definition grad_shape_ok :: "Var_Grad \<Rightarrow> bool" where
  "grad_shape_ok vg = (empty (grad vg) \<or> t_dim (grad vg) = t_dim (var vg))"

definition grad_absent_ok :: "Var_Grad \<Rightarrow> bool" where
  "grad_absent_ok vg = (need_gradient vg \<or> empty (grad vg))"

definition var_grad_inv :: "Var_Grad \<Rightarrow> bool" where
  "var_grad_inv vg = (grad_shape_ok vg \<and> grad_absent_ok vg)"

section \<open>The formulas of the spec and the inputs of the examples\<close>

text \<open>The loss of one batch row under the sigmoid cross entropy as the spec writes it:
  \<open>sum(-logit * label + log(1 + exp(-|logit|)) + max(logit, 0)) / width\<close>, over the
  logits and labels of the row.\<close>

definition sigmoid_cross_entropy_row_spec :: "real list \<Rightarrow> real list \<Rightarrow> nat \<Rightarrow> real" where
  "sigmoid_cross_entropy_row_spec logits labels w =
     (\<Sum>(x, y) \<leftarrow> zip logits labels. - x * y + ln (1 + exp (- \<bar>x\<bar>)) + max x 0) / real w"

text \<open>The tensors of the spec's end-to-end scenario (batch 2, width 4), a tensor of one
  number, and layers and pairs to run the operations on.\<close>

definition example_dim :: TensorDim where
  "example_dim = \<lparr>batch = 2, channel = 1, height = 1, width = 4\<rparr>"

definition example_prediction :: Tensor where
  "example_prediction =
     \<lparr>t_dim = example_dim, initializer = NONE, data = Filled [1, 2, 3, 4, 5, 6, 7, 8]\<rparr>"

definition example_label :: Tensor where
  "example_label =
     \<lparr>t_dim = example_dim, initializer = NONE, data = Filled [1, 1, 1, 1, 1, 1, 1, 1]\<rparr>"

definition unit_dim :: TensorDim where
  "unit_dim = \<lparr>batch = 1, channel = 1, height = 1, width = 1\<rparr>"

definition unit_tensor :: "real \<Rightarrow> Tensor" where
  "unit_tensor x = \<lparr>t_dim = unit_dim, initializer = NONE, data = Filled [x]\<rparr>"

definition unit_layer :: "CostType \<Rightarrow> ActiType \<Rightarrow> LossLayer" where
  "unit_layer c a =
     \<lparr>input_dim = unit_dim, output_dim = unit_dim, last_layer = True,
      input = Tensor_default, cost = c, activation_type = a, loss = Val 5\<rparr>"

definition example_layer :: "CostType \<Rightarrow> ActiType \<Rightarrow> LossLayer" where
  "example_layer c a =
     \<lparr>input_dim = example_dim, output_dim = example_dim, last_layer = True,
      input = Tensor_default, cost = c, activation_type = a, loss = Val 5\<rparr>"

section \<open>Facts about the tensor operations\<close>

lemma getData_update [simp]: "getData (t\<lparr>data := Filled xs\<rparr>) = xs"
  by (simp add: getData_def)

lemma fold_add_upt: "fold (\<lambda>i acc. acc + f i) [0..<n] (a::real) = a + (\<Sum>i<n. f i)"
  by (induction n) (simp_all add: algebra_simps)

lemma sum_list_take_drop:
  fixes xs :: "real list"
  assumes "k + n \<le> length xs"
  shows "sum_list (take n (drop k xs)) = (\<Sum>j<n. xs ! (k + j))"
proof -
  have len: "length (take n (drop k xs)) = n" using assms by simp
  have "sum_list (take n (drop k xs)) = (\<Sum>j = 0..<n. take n (drop k xs) ! j)"
    using sum_list_sum_nth [of "take n (drop k xs)"] len by simp
  also have "\<dots> = (\<Sum>j = 0..<n. xs ! (k + j))"
    using assms by (intro sum.cong) simp_all
  finally show ?thesis by (simp add: atLeast0LessThan)
qed

lemma row_bound: "i < (b::nat) \<Longrightarrow> i * f + f \<le> b * f"
proof -
  assume "i < b"
  then have "Suc i \<le> b" by simp
  then have "Suc i * f \<le> b * f" by (rule mult_le_mono1)
  then show ?thesis by (simp add: add.commute)
qed

lemma cell_bound: "i < (b::nat) \<Longrightarrow> j < f \<Longrightarrow> i * f + j < b * f"
  using row_bound [of i b f] by simp

lemma wf_length: "tensor_wf t \<Longrightarrow> length (getData t) = getDataLen (t_dim t)"
  by (auto simp: tensor_wf_def getData_def split: storage.splits)

lemma wf_update: "tensor_wf (t\<lparr>data := Filled xs\<rparr>) = (length xs = getDataLen (t_dim t))"
  by (simp add: tensor_wf_def)

text \<open>The batch-wise sum, element by element: row \<open>i\<close> holds the numbers at the places
  \<open>i * getFeatureLen + j\<close>.\<close>

lemma sum_by_batch_data:
  assumes "tensor_wf t"
  shows "getData (sum_by_batch t) =
    map (\<lambda>i. \<Sum>j<getFeatureLen (t_dim t). getData t ! (i * getFeatureLen (t_dim t) + j))
      [0..<getBatch t]"
proof -
  have "sum_list (batch_row t i) =
      (\<Sum>j<getFeatureLen (t_dim t). getData t ! (i * getFeatureLen (t_dim t) + j))"
    if "i < getBatch t" for i
    unfolding batch_row_def
    using row_bound [OF that [unfolded getBatch_def], of "getFeatureLen (t_dim t)"]
      wf_length [OF assms]
    by (intro sum_list_take_drop) (simp add: getDataLen_def)
  then show ?thesis
    by (simp add: sum_by_batch_def getData_def)
qed

lemma sum_by_batch_eq:
  assumes "tensor_wf t"
  shows "sum_by_batch t =
    \<lparr>t_dim = \<lparr>batch = getBatch t, channel = 1, height = 1, width = 1\<rparr>, initializer = NONE,
     data = Filled (map (\<lambda>i. \<Sum>j<getFeatureLen (t_dim t).
        getData t ! (i * getFeatureLen (t_dim t) + j)) [0..<getBatch t])\<rparr>"
proof -
  have "sum_by_batch t = \<lparr>t_dim = \<lparr>batch = getBatch t, channel = 1, height = 1, width = 1\<rparr>,
      initializer = NONE, data = Filled (getData (sum_by_batch t))\<rparr>"
    by (simp add: sum_by_batch_def getData_def)
  then show ?thesis
    unfolding sum_by_batch_data [OF assms] .
qed

lemma loss_sum_eq: "loss_sum l = (\<Sum>i<getBatch l. getData l ! i)"
  by (simp add: loss_sum_def fold_add_upt)

section \<open>The mean-squared cost\<close>

lemma msr_rows:
  assumes "cost s = COST_MSR" "tensor_wf p" "tensor_wf lab" "t_dim p = t_dim lab"
  shows "forwarding_loss s p lab = Some
      \<lparr>t_dim = \<lparr>batch = getBatch lab, channel = 1, height = 1, width = 1\<rparr>,
       initializer = NONE,
       data = Filled (map (\<lambda>i. 0.5 * (\<Sum>j<getFeatureLen (t_dim lab).
            (getData lab ! (i * getFeatureLen (t_dim lab) + j)
              - getData p ! (i * getFeatureLen (t_dim lab) + j))\<^sup>2)) [0..<getBatch lab])\<rparr>"
proof -
  define f where "f = getFeatureLen (t_dim lab)"
  define d where "d = multiply (subtract lab p) (subtract lab p)"
  have len: "length (getData lab) = getBatch lab * f" "length (getData p) = getBatch lab * f"
    using wf_length [OF assms(2)] wf_length [OF assms(3)] assms(4)
    by (simp_all add: getDataLen_def getBatch_def f_def)
  have wf: "tensor_wf d" and dim: "t_dim d = t_dim lab"
    using len
    by (simp_all add: d_def multiply_def subtract_def wf_update getDataLen_def getBatch_def f_def)
  have cell: "getData d ! (i * f + j) = (getData lab ! (i * f + j) - getData p ! (i * f + j))\<^sup>2"
    if "i < getBatch lab" "j < f" for i j
    using cell_bound [OF that] len
    by (simp add: d_def multiply_def subtract_def power2_eq_square)
  have "getData (sum_by_batch d) =
      map (\<lambda>i. \<Sum>j<f. (getData lab ! (i * f + j) - getData p ! (i * f + j))\<^sup>2)
        [0..<getBatch lab]"
    unfolding sum_by_batch_data [OF wf] dim f_def [symmetric]
    by (simp add: getBatch_def dim cell)
  then show ?thesis
    using assms(1)
    by (simp add: forwarding_loss_def d_def [symmetric] f_def [symmetric] multiply_scalar_def
        sum_by_batch_def getBatch_def dim Let_def)
qed

text \<open>C2. Under the cost \<open>COST_MSR\<close>, for a prediction \<open>p\<close> and a label \<open>lab\<close> of the same
  shape (well-formed, with at least one batch row): the loss tensor of \<open>forwarding\<close> holds
  for each batch row \<open>0.5 * sum((label - prediction)^2)\<close> over the row, \<open>forwarding\<close> returns
  the prediction with \<open>ML_ERROR_NONE\<close> and records as loss the mean of these row losses, and
  \<open>backwarding\<close> on the layer afterwards returns, for any label \<open>d\<close> of that shape, the
  element-wise difference of the saved prediction and \<open>d\<close>.\<close>

theorem msr_forward_backward:
  assumes "cost s = COST_MSR" and "tensor_wf p" and "tensor_wf lab"
    and "t_dim p = t_dim lab" and "0 < getBatch lab"
    and "tensor_wf d" and "t_dim d = t_dim p"
  shows "forwarding_loss (s\<lparr>input := p\<rparr>) p lab = Some
      \<lparr>t_dim = \<lparr>batch = getBatch lab, channel = 1, height = 1, width = 1\<rparr>,
       initializer = NONE,
       data = Filled (map (\<lambda>i. 0.5 * (\<Sum>j<getFeatureLen (t_dim lab).
            (getData lab ! (i * getFeatureLen (t_dim lab) + j)
              - getData p ! (i * getFeatureLen (t_dim lab) + j))\<^sup>2)) [0..<getBatch lab])\<rparr>
    \<and> fst (forwarding s p lab) = p
    \<and> fst (snd (forwarding s p lab)) = ML_ERROR_NONE
    \<and> loss (snd (snd (forwarding s p lab))) =
        Val ((\<Sum>i<getBatch lab. 0.5 * (\<Sum>j<getFeatureLen (t_dim lab).
            (getData lab ! (i * getFeatureLen (t_dim lab) + j)
              - getData p ! (i * getFeatureLen (t_dim lab) + j))\<^sup>2)) / real (getBatch lab))
    \<and> backwarding (snd (snd (forwarding s p lab))) d it =
        Inr (p\<lparr>data := Filled (map2 (\<lambda>a b. a - b) (getData p) (getData d))\<rparr>)"
proof -
  have c: "cost (s\<lparr>input := p\<rparr>) = COST_MSR" using assms(1) by simp
  note rows = msr_rows [OF c assms(2,3,4)]
  have "loss_sum (the (forwarding_loss (s\<lparr>input := p\<rparr>) p lab)) =
      (\<Sum>i<getBatch lab. 0.5 * (\<Sum>j<getFeatureLen (t_dim lab).
            (getData lab ! (i * getFeatureLen (t_dim lab) + j)
              - getData p ! (i * getFeatureLen (t_dim lab) + j))\<^sup>2))"
    unfolding rows loss_sum_eq by (simp add: getBatch_def getData_def)
  then show ?thesis
    using rows assms(1,5)
    by (simp add: forwarding_def updateLoss_def float_div_def backwarding_def subtract_def
        getBatch_def)
qed

text \<open>The scenario of the spec: prediction \<open>[[1,2,3,4],[5,6,7,8]]\<close>, label all ones. The row
  losses are 7 and 63, the recorded loss is 35, the gradient is \<open>[[0,1,2,3],[4,5,6,7]]\<close>.\<close>

theorem msr_forward_backward_example:
  "forwarding_loss ((example_layer COST_MSR ACT_UNKNOWN)\<lparr>input := example_prediction\<rparr>)
      example_prediction example_label = Some
      \<lparr>t_dim = \<lparr>batch = 2, channel = 1, height = 1, width = 1\<rparr>, initializer = NONE,
       data = Filled [7, 63]\<rparr>
   \<and> loss (snd (snd (forwarding (example_layer COST_MSR ACT_UNKNOWN)
        example_prediction example_label))) = Val 35
   \<and> backwarding (snd (snd (forwarding (example_layer COST_MSR ACT_UNKNOWN)
        example_prediction example_label))) example_label 0
      = Inr (example_prediction\<lparr>data := Filled [0, 1, 2, 3, 4, 5, 6, 7]\<rparr>)"
proof -
  have h: "cost (example_layer COST_MSR ACT_UNKNOWN) = COST_MSR"
    "tensor_wf example_prediction" "tensor_wf example_label"
    "t_dim example_prediction = t_dim example_label" "0 < getBatch example_label"
    "tensor_wf example_label" "t_dim example_label = t_dim example_prediction"
    by (simp_all add: example_layer_def example_prediction_def example_label_def example_dim_def
        tensor_wf_def getDataLen_def getFeatureLen_def getBatch_def)
  have f: "getFeatureLen (t_dim example_label) = 4" "getBatch example_label = 2"
    "getData example_label = [1, 1, 1, 1, 1, 1, 1, 1]"
    "getData example_prediction = [1, 2, 3, 4, 5, 6, 7, 8]"
    by (simp_all add: example_label_def example_prediction_def example_dim_def getFeatureLen_def
        getBatch_def getData_def)
  show ?thesis
    using msr_forward_backward [OF h, of 0]
    unfolding f
    by (simp add: upt_rec lessThan_nat_numeral lessThan_Suc)
qed

section \<open>The softmax cross entropy\<close>




text \<open>C6. Under the cost \<open>COST_ENTROPY\<close>, a forward call on a prediction \<open>p\<close> and a label of
  the same shape saves \<open>p\<close>, and \<open>backwarding\<close> on a label \<open>d\<close> of that shape then returns
  \<open>(p - d) / width\<close> element by element, where \<open>width\<close> is the width the forward call divides
  by (that of its label).\<close>

theorem softmax_cross_entropy_backward:
  assumes "cost s = COST_ENTROPY"
    and "tensor_wf p" and "tensor_wf lab" and "t_dim p = t_dim lab"
    and "tensor_wf d" and "t_dim d = t_dim p"
  shows "input (snd (snd (forwarding s p lab))) = p
    \<and> backwarding (snd (snd (forwarding s p lab))) d it =
        Inr (p\<lparr>data := Filled (map2 (\<lambda>a b. (a - b) / real (getWidth lab)) (getData p) (getData d))\<rparr>)"
proof -
  have w: "getWidth p = getWidth lab" using assms(4) by (simp add: getWidth_def)
  have "map (\<lambda>a. a * (1 / real (getWidth lab))) (map2 (\<lambda>a b. a - b) (getData p) (getData d))
      = map2 (\<lambda>a b. (a - b) / real (getWidth lab)) (getData p) (getData d)"
    by (simp add: case_prod_beta)
  then show ?thesis
    using assms(1) w
    by (simp add: forwarding_def forwarding_loss_def updateLoss_def backwarding_def subtract_def
        multiply_scalar_def)
qed

text \<open>On the scenario's tensors the gradient is \<open>[[0,1,2,3],[4,5,6,7]] / 4\<close>.\<close>

theorem softmax_cross_entropy_backward_example:
  "backwarding (snd (snd (forwarding (example_layer COST_ENTROPY ACT_SOFTMAX)
        example_prediction example_label))) example_label 0
      = Inr (example_prediction\<lparr>data := Filled [0, 1/4, 2/4, 3/4, 1, 5/4, 6/4, 7/4]\<rparr>)"
proof -
  have g: "cost (example_layer COST_ENTROPY ACT_SOFTMAX) = COST_ENTROPY"
    "tensor_wf example_prediction" "tensor_wf example_label"
    "t_dim example_prediction = t_dim example_label"
    "tensor_wf example_label" "t_dim example_label = t_dim example_prediction"
    by (simp_all add: example_layer_def example_prediction_def example_label_def example_dim_def
        tensor_wf_def getDataLen_def getFeatureLen_def)
  have f: "getWidth example_label = 4"
    "getData example_label = [1, 1, 1, 1, 1, 1, 1, 1]"
    "getData example_prediction = [1, 2, 3, 4, 5, 6, 7, 8]"
    by (simp_all add: example_label_def example_prediction_def example_dim_def
        getData_def getWidth_def)
  show ?thesis
    using softmax_cross_entropy_backward [OF g, of 0]
    unfolding f by simp
qed


section \<open>A failed forward is not atomic\<close>

text \<open>C10. When the cost is the softmax cross entropy and the activation is not softmax,
  \<open>forwarding\<close> returns the prediction with \<open>ML_ERROR_NOT_SUPPORTED\<close>; the recorded loss is
  the one before the call, and the saved prediction \<open>input\<close> is already the prediction of
  the failing call.\<close>

theorem forwarding_not_supported_keeps_loss_overwrites_input:
  assumes "cost s = COST_ENTROPY" and "activation_type s \<noteq> ACT_SOFTMAX"
  shows "forwarding s output label = (output, ML_ERROR_NOT_SUPPORTED, s\<lparr>input := output\<rparr>)
    \<and> loss (snd (snd (forwarding s output label))) = loss s
    \<and> input (snd (snd (forwarding s output label))) = output"
  using assms by (simp add: forwarding_def forwarding_loss_def)

theorem forwarding_not_supported_example:
  "fst (snd (forwarding (example_layer COST_ENTROPY ACT_SIGMOID) example_prediction example_label))
      = ML_ERROR_NOT_SUPPORTED
   \<and> loss (snd (snd (forwarding (example_layer COST_ENTROPY ACT_SIGMOID)
        example_prediction example_label))) = Val 5
   \<and> input (snd (snd (forwarding (example_layer COST_ENTROPY ACT_SIGMOID)
        example_prediction example_label))) = example_prediction
   \<and> input (example_layer COST_ENTROPY ACT_SIGMOID) \<noteq> example_prediction"
proof -
  have h: "cost (example_layer COST_ENTROPY ACT_SIGMOID) = COST_ENTROPY"
    "activation_type (example_layer COST_ENTROPY ACT_SIGMOID) \<noteq> ACT_SOFTMAX"
    by (simp_all add: example_layer_def)
  show ?thesis
    using forwarding_not_supported_keeps_loss_overwrites_input
      [OF h, of example_prediction example_label]
    by (simp add: example_layer_def example_prediction_def Tensor_default_def)
qed

section \<open>The sigmoid cross entropy\<close>

text \<open>The logarithm term of the switch is positive, so the rectifier applied to it (the code
  has \<^verbatim>\<open>mid_term.apply(relu)\<close>, on \<open>mid_term\<close> and not on \<open>y\<close>) returns it unchanged.\<close>

lemma relu_softplus: "relu (ln (1 + exp z)) = ln (1 + exp z)" "relu (ln (exp z + 1)) = ln (exp z + 1)"
  by (simp_all add: relu_def max_def ln_gt_zero add_pos_pos less_imp_le)

text \<open>What the code computes for a logit tensor \<open>y\<close> and a label \<open>y2\<close> of the same shape: each
  batch row gets \<open>- sum(label * logit + 2 * log(1 + exp(-|logit|))) / width\<close>.\<close>

lemma sigmoid_rows_of_code:
  assumes "cost s = COST_ENTROPY_SIGMOID" "tensor_wf y" "tensor_wf y2" "t_dim y = t_dim y2"
  shows "forwarding_loss s y y2 = Some
      \<lparr>t_dim = \<lparr>batch = getBatch y2, channel = 1, height = 1, width = 1\<rparr>,
       initializer = NONE,
       data = Filled (map (\<lambda>i. - (\<Sum>j<getFeatureLen (t_dim y2).
            getData y2 ! (i * getFeatureLen (t_dim y2) + j) * getData y ! (i * getFeatureLen (t_dim y2) + j)
              + 2 * ln (1 + exp (- \<bar>getData y ! (i * getFeatureLen (t_dim y2) + j)\<bar>)))
            / real (getWidth y2))
          [0..<getBatch y2])\<rparr>"
proof -
  define f where "f = getFeatureLen (t_dim y2)"
  define c where "c = - 1 / real (getWidth y2)"
  define m where "m = apply_fn (add_scalar (apply_fn (multiply_scalar (apply_fn y abs) (- 1)) exp) 1) logFloat"
  define d where "d = multiply_scalar (add (multiply y2 y) (add m (apply_fn m relu))) c"
  have len: "length (getData y2) = getBatch y2 * f" "length (getData y) = getBatch y2 * f"
    using wf_length [OF assms(2)] wf_length [OF assms(3)] assms(4)
    by (simp_all add: getDataLen_def getBatch_def f_def)
  have wf: "tensor_wf d" and dim: "t_dim d = t_dim y2"
    using len
    by (simp_all add: d_def m_def multiply_def multiply_scalar_def add_def add_scalar_def apply_fn_def
        wf_update getDataLen_def getBatch_def f_def)
  have cell: "getData d ! (i * f + j) =
      (getData y2 ! (i * f + j) * getData y ! (i * f + j)
        + 2 * ln (1 + exp (- \<bar>getData y ! (i * f + j)\<bar>))) * c"
    if "i < getBatch y2" "j < f" for i j
    using cell_bound [OF that] len
    by (simp add: d_def m_def multiply_def multiply_scalar_def add_def add_scalar_def apply_fn_def
        logFloat_def relu_softplus add.commute)
  have rows: "map (\<lambda>i. \<Sum>j<f. getData d ! (i * f + j)) [0..<getBatch y2] =
      map (\<lambda>i. - (\<Sum>j<f. getData y2 ! (i * f + j) * getData y ! (i * f + j)
        + 2 * ln (1 + exp (- \<bar>getData y ! (i * f + j)\<bar>)))
        / real (getWidth y2)) [0..<getBatch y2]"
    by (simp add: cell c_def sum_negf sum_divide_distrib)
  have "forwarding_loss s y y2 = Some (sum_by_batch d)"
    unfolding forwarding_loss_def d_def m_def c_def using assms(1) by (simp add: Let_def)
  also have "sum_by_batch d =
      \<lparr>t_dim = \<lparr>batch = getBatch y2, channel = 1, height = 1, width = 1\<rparr>, initializer = NONE,
       data = Filled (map (\<lambda>i. \<Sum>j<f. getData d ! (i * f + j)) [0..<getBatch y2])\<rparr>"
    using sum_by_batch_eq [OF wf] by (simp add: dim getBatch_def f_def)
  finally have "forwarding_loss s y y2 = Some
      \<lparr>t_dim = \<lparr>batch = getBatch y2, channel = 1, height = 1, width = 1\<rparr>, initializer = NONE,
       data = Filled (map (\<lambda>i. - (\<Sum>j<f. getData y2 ! (i * f + j) * getData y ! (i * f + j)
        + 2 * ln (1 + exp (- \<bar>getData y ! (i * f + j)\<bar>)))
        / real (getWidth y2)) [0..<getBatch y2])\<rparr>"
    unfolding rows .
  then show ?thesis
    unfolding f_def .
qed

lemmas eval_defs = forwarding_def forwarding_loss_def backwarding_def updateLoss_def loss_sum_def
  float_div_def sum_by_batch_def batch_row_def subtract_def multiply_def add_def multiply_scalar_def
  add_scalar_def apply_fn_def getData_def getBatch_def getWidth_def getFeatureLen_def getDataLen_def
  Tensor_default_def TensorDim_default_def logFloat_def relu_def

text \<open>C1. The spec has the row loss
  \<open>sum(-logit * label + log(1 + exp(-|logit|)) + max(logit, 0)) / width\<close>. For one row
  holding the logit 0 and the label 0 (width 1) that is \<open>log 2\<close>; the loss tensor of
  \<open>forwarding\<close> holds \<open>- 2 * log 2\<close> there, and so does the recorded loss.\<close>

theorem sigmoid_cross_entropy_forward_diverges:
  "forwarding_loss (unit_layer COST_ENTROPY_SIGMOID ACT_SIGMOID) (unit_tensor 0) (unit_tensor 0)
      = Some \<lparr>t_dim = \<lparr>batch = 1, channel = 1, height = 1, width = 1\<rparr>, initializer = NONE,
          data = Filled [- (2 * ln 2)]\<rparr>
   \<and> loss (snd (snd (forwarding (unit_layer COST_ENTROPY_SIGMOID ACT_SIGMOID)
        (unit_tensor 0) (unit_tensor 0)))) = Val (- (2 * ln 2))
   \<and> sigmoid_cross_entropy_row_spec [0] [0] 1 = ln 2
   \<and> - (2 * ln 2) \<noteq> ln (2 :: real)"
  by (simp add: eval_defs unit_layer_def unit_tensor_def unit_dim_def
      sigmoid_cross_entropy_row_spec_def)

section \<open>The unknown cost\<close>

text \<open>Under \<open>COST_UNKNOWN\<close> the switch leaves the default-constructed \<open>l\<close>, and \<open>updateLoss\<close>
  runs on it: the loop adds nothing and the loss becomes \<open>0.0 / 0\<close>.\<close>

lemma forwarding_unknown:
  "cost s = COST_UNKNOWN \<Longrightarrow>
   forwarding s p lab = (p, ML_ERROR_NONE, s\<lparr>input := p, loss := NaN\<rparr>)"
  by (simp add: eval_defs)

text \<open>C7. Under \<open>COST_UNKNOWN\<close>, \<open>forwarding\<close> returns the prediction unchanged with
  \<open>ML_ERROR_NONE\<close> and saves it in \<open>input\<close>; the recorded loss, 5 before the call, is
  not-a-number afterwards.\<close>

theorem forwarding_unknown_overwrites_loss:
  "forwarding (example_layer COST_UNKNOWN ACT_UNKNOWN) example_prediction example_label
      = (example_prediction, ML_ERROR_NONE,
         (example_layer COST_UNKNOWN ACT_UNKNOWN)\<lparr>input := example_prediction, loss := NaN\<rparr>)
   \<and> loss (example_layer COST_UNKNOWN ACT_UNKNOWN) = Val 5"
  by (simp add: eval_defs example_layer_def)

text \<open>C4. Under \<open>COST_UNKNOWN\<close>, \<open>backwarding\<close> returns the default-constructed (empty) tensor;
  it does not fail.\<close>

theorem backwarding_unknown_returns:
  "cost s = COST_UNKNOWN \<Longrightarrow> backwarding s d it = Inr Tensor_default"
  by (simp add: backwarding_def)

text \<open>A layer with the unknown cost: the gradient is the empty tensor.\<close>

theorem backwarding_unknown_returns_example:
  "backwarding (example_layer COST_UNKNOWN ACT_SOFTMAX) example_label 1 = Inr Tensor_default
   \<and> empty Tensor_default"
proof -
  have "cost (example_layer COST_UNKNOWN ACT_SOFTMAX) = COST_UNKNOWN"
    by (simp add: example_layer_def)
  from backwarding_unknown_returns [OF this] show ?thesis
    by (simp add: empty_def Tensor_default_def TensorDim_default_def getDataLen_def)
qed

text \<open>The call on a layer with the unknown cost does not fail with
  \<open>ML_ERROR_NOT_SUPPORTED\<close>.\<close>

theorem backwarding_unknown_not_an_error:
  "cost (example_layer COST_UNKNOWN ACT_UNKNOWN) = COST_UNKNOWN
   \<and> backwarding (example_layer COST_UNKNOWN ACT_UNKNOWN) example_label 0
        \<noteq> Inl ML_ERROR_NOT_SUPPORTED"
  by (simp add: backwarding_def example_layer_def)

section \<open>The variable/gradient pair: allocation and invariant\<close>

lemmas vg_defs = Var_Grad_ctor_def Tensor_ctor_def Tensor_default_def TensorDim_default_def
  initial_contents_def needsGradient_def empty_def isAllocated_def getDim_def getDataLen_def
  getFeatureLen_def makeSharedDataTensor_def initializeVariable_def initializeGradient_def
  initializeShared_def

text \<open>Turning the gradient on when the gradient tensor is empty builds a tensor of the value
  tensor's shape and allocation state, with the constructor's default initializer.\<close>

lemma needsGradient_new_grad:
  assumes "empty (grad vg)"
  shows "grad (needsGradient dflt True vg) = Tensor_ctor (t_dim (var vg)) (isAllocated (var vg)) dflt"
    and "initializer (grad (needsGradient dflt True vg)) = dflt"
    and "isAllocated (grad (needsGradient dflt True vg)) = isAllocated (var vg)"
    and "t_dim (grad (needsGradient dflt True vg)) = t_dim (var vg)"
  using assms
  by (auto simp: needsGradient_def Tensor_ctor_def getDim_def isAllocated_def initial_contents_def
      split: Initializer.splits)

text \<open>C3. A pair built without gradient has the empty gradient tensor. With the default
  initializer \<open>NONE\<close>, \<open>needsGradient(true)\<close> gives it a gradient tensor of the value's shape,
  allocated as the value is, whose initializer is \<open>NONE\<close> and whose memory is not written;
  the constructor builds the gradient of the same pair with \<open>ZEROS\<close>, filled with zeros.\<close>

theorem needsGradient_not_zero_initialized:
  "empty (grad (Var_Grad_ctor unit_dim ONES False True ''weight''))
   \<and> grad (needsGradient NONE True (Var_Grad_ctor unit_dim ONES False True ''weight''))
        = \<lparr>t_dim = unit_dim, initializer = NONE, data = Raw\<rparr>
   \<and> grad (Var_Grad_ctor unit_dim ONES True True ''weight'')
        = \<lparr>t_dim = unit_dim, initializer = ZEROS, data = Filled [0]\<rparr>"
  by (simp add: vg_defs unit_dim_def)

text \<open>C8. \<open>initializeVariable\<close> and \<open>initializeGradient\<close>, called with a buffer that is not
  empty and whose shape differs from that of the tensor they bind (the value tensor, the
  gradient tensor), fail with \<open>InvalidArgument\<close> and leave the pair as it was; called with
  an empty buffer they return without an error and leave the pair as it was.\<close>

theorem initialize_mismatch_or_empty_buffer:
  "(\<not> empty pre \<and> t_dim pre \<noteq> t_dim (var vg) \<longrightarrow>
      initializeVariable pre vg = (Some InvalidArgument, vg))
   \<and> (\<not> empty pre \<and> t_dim pre \<noteq> t_dim (grad vg) \<longrightarrow>
      initializeGradient pre vg = (Some InvalidArgument, vg))
   \<and> (empty pre \<longrightarrow>
      initializeVariable pre vg = (None, vg) \<and> initializeGradient pre vg = (None, vg))"
  by (simp add: initializeVariable_def initializeGradient_def makeSharedDataTensor_def)

text \<open>A pair of one number, a buffer of another shape and the empty buffer.\<close>

theorem initialize_mismatch_or_empty_buffer_example:
  "initializeVariable example_label (Var_Grad_ctor unit_dim ONES True True ''weight'')
      = (Some InvalidArgument, Var_Grad_ctor unit_dim ONES True True ''weight'')
   \<and> initializeGradient example_label (Var_Grad_ctor unit_dim ONES True True ''weight'')
      = (Some InvalidArgument, Var_Grad_ctor unit_dim ONES True True ''weight'')
   \<and> initializeVariable Tensor_default (Var_Grad_ctor unit_dim ONES True True ''weight'')
      = (None, Var_Grad_ctor unit_dim ONES True True ''weight'')
   \<and> initializeGradient Tensor_default (Var_Grad_ctor unit_dim ONES True True ''weight'')
      = (None, Var_Grad_ctor unit_dim ONES True True ''weight'')"
proof -
  have h: "\<not> empty example_label" "empty Tensor_default"
    "t_dim example_label \<noteq> t_dim (var (Var_Grad_ctor unit_dim ONES True True ''weight''))"
    "t_dim example_label \<noteq> t_dim (grad (Var_Grad_ctor unit_dim ONES True True ''weight''))"
    by (simp_all add: vg_defs example_label_def example_dim_def unit_dim_def)
  show ?thesis
    using initialize_mismatch_or_empty_buffer
        [of example_label "Var_Grad_ctor unit_dim ONES True True ''weight''"]
      initialize_mismatch_or_empty_buffer
        [of Tensor_default "Var_Grad_ctor unit_dim ONES True True ''weight''"] h
    by simp
qed

text \<open>C9. The constructor establishes the invariant (the gradient tensor is empty or has the
  shape of the value tensor; it is empty when \<open>need_gradient\<close> is false);
  \<open>initializeVariable\<close>, \<open>initializeGradient\<close>, \<open>initializeShared\<close> and
  \<open>needsGradient(true)\<close> preserve it; \<open>needsGradient(false)\<close> preserves its first half, the
  shape of the gradient tensor.\<close>

theorem var_grad_inv_preserved:
  "var_grad_inv (Var_Grad_ctor d init ng a nm)
   \<and> (var_grad_inv vg \<longrightarrow>
        var_grad_inv (snd (initializeVariable pre vg))
        \<and> var_grad_inv (snd (initializeGradient pre vg))
        \<and> var_grad_inv (snd (initializeShared vg))
        \<and> var_grad_inv (needsGradient dflt True vg))
   \<and> (grad_shape_ok vg \<longrightarrow> grad_shape_ok (needsGradient dflt False vg))"
proof -
  have ctor: "var_grad_inv (Var_Grad_ctor d init ng a nm)"
    by (simp add: var_grad_inv_def grad_shape_ok_def grad_absent_ok_def vg_defs)
  have iv: "var_grad_inv (snd (initializeVariable pre vg))" if "var_grad_inv vg"
    using that
    by (auto simp: var_grad_inv_def grad_shape_ok_def grad_absent_ok_def initializeVariable_def
        makeSharedDataTensor_def empty_def split: prod.splits if_splits)
  have ig: "var_grad_inv (snd (initializeGradient pre vg))" if "var_grad_inv vg"
    using that
    by (auto simp: var_grad_inv_def grad_shape_ok_def grad_absent_ok_def initializeGradient_def
        makeSharedDataTensor_def empty_def split: prod.splits if_splits)
  have ish: "var_grad_inv (snd (initializeShared vg))" if "var_grad_inv vg"
    using that
    by (auto simp: var_grad_inv_def grad_shape_ok_def grad_absent_ok_def initializeShared_def
        makeSharedDataTensor_def empty_def split: prod.splits if_splits)
  have ngt: "var_grad_inv (needsGradient dflt True vg)" if "var_grad_inv vg"
    using that
    by (auto simp: var_grad_inv_def grad_shape_ok_def grad_absent_ok_def needsGradient_def
        Tensor_ctor_def getDim_def Let_def)
  have ngf: "grad_shape_ok (needsGradient dflt False vg)" if "grad_shape_ok vg"
    using that by (simp add: grad_shape_ok_def needsGradient_def)
  show ?thesis
    using ctor iv ig ish ngt ngf by blast
qed

text \<open>A lazy pair without gradient under each operation; binding a buffer sets the value.\<close>

theorem var_grad_inv_preserved_example:
  "var_grad_inv (Var_Grad_ctor unit_dim ONES False False ''bias'')
   \<and> var_grad_inv (snd (initializeVariable (unit_tensor 3) (Var_Grad_ctor unit_dim ONES False False ''bias'')))
   \<and> var (snd (initializeVariable (unit_tensor 3) (Var_Grad_ctor unit_dim ONES False False ''bias'')))
       = \<lparr>t_dim = unit_dim, initializer = ONES, data = Filled [3]\<rparr>
   \<and> var_grad_inv (snd (initializeGradient (unit_tensor 3) (Var_Grad_ctor unit_dim ONES False False ''bias'')))
   \<and> var_grad_inv (snd (initializeShared (Var_Grad_ctor unit_dim ONES False False ''bias'')))
   \<and> var_grad_inv (needsGradient NONE True (Var_Grad_ctor unit_dim ONES False False ''bias''))
   \<and> grad_shape_ok (needsGradient NONE False (Var_Grad_ctor unit_dim ONES False False ''bias''))"
proof -
  have v: "var (snd (initializeVariable (unit_tensor 3) (Var_Grad_ctor unit_dim ONES False False ''bias'')))
       = \<lparr>t_dim = unit_dim, initializer = ONES, data = Filled [3]\<rparr>"
    by (simp add: vg_defs unit_tensor_def unit_dim_def)
  have i: "var_grad_inv (Var_Grad_ctor unit_dim ONES False False ''bias'')"
    using var_grad_inv_preserved [of unit_dim ONES False False "''bias''"] by blast
  then have s: "grad_shape_ok (Var_Grad_ctor unit_dim ONES False False ''bias'')"
    by (simp add: var_grad_inv_def)
  show ?thesis
    using var_grad_inv_preserved [of unit_dim ONES False False "''bias''"
        "Var_Grad_ctor unit_dim ONES False False ''bias''" "unit_tensor 3" NONE] i s v
    by blast
qed

text \<open>\<open>needsGradient(false)\<close> on a pair built with a gradient clears the flag and leaves the
  gradient tensor in place: \<open>need_gradient\<close> is false and the gradient tensor is not
  empty.\<close>

theorem needsGradient_false_keeps_gradient:
  "var_grad_inv (Var_Grad_ctor unit_dim ONES True True ''weight'')
   \<and> \<not> var_grad_inv (needsGradient NONE False (Var_Grad_ctor unit_dim ONES True True ''weight''))
   \<and> \<not> need_gradient (needsGradient NONE False (Var_Grad_ctor unit_dim ONES True True ''weight''))
   \<and> \<not> empty (grad (needsGradient NONE False (Var_Grad_ctor unit_dim ONES True True ''weight'')))"
  by (simp add: var_grad_inv_def grad_shape_ok_def grad_absent_ok_def vg_defs unit_dim_def)

end
